theory Spec2Isabelle
  imports Complex_Main "HOL-Library.Word"
begin

unbundle bit_operations_syntax

section \<open>Data model of OcTreeBase\<close>

text \<open>
  The embedding follows \<^verbatim>\<open>src/octomap/OcTreeBase.hxx\<close>. Every \<^verbatim>\<open>double\<close> of the source is
  a \<^typ>\<open>real\<close> here: rounding, infinities and NaN of IEEE arithmetic are idealised away, so
  \<^verbatim>\<open>floor\<close>, \<^verbatim>\<open>fabs\<close>, \<^verbatim>\<open>pow(2., n)\<close> and the square root inside the norm are the mathematical
  functions. The keys and voxel indices are \<^verbatim>\<open>unsigned short\<close>, modelled as 16-bit words
  whose addition wraps around. The conversion \<^verbatim>\<open>(int) floor(x)\<close> is taken as the
  mathematical integer; the source leaves it undefined for a floor outside the range of
  \<^verbatim>\<open>int\<close>, where the range test of \<^verbatim>\<open>genKey\<close> fails on the mathematical value.
\<close>

text \<open>
  Modelled from the spec: the point type \<^verbatim>\<open>point3d\<close> is declared outside the source file.
  The spec gives it per-axis component access, subtraction, unit-vector normalization
  and the Euclidean norm. The normalization divides by the norm; of the zero vector it is
  the zero vector here, and \<^verbatim>\<open>computeRay\<close> returns before its loop when the origin and
  the end point coincide.
\<close>

datatype point3d = Point3d real real real

fun coord :: "point3d \<Rightarrow> nat \<Rightarrow> real" where
  "coord (Point3d x y z) i = (if i = 0 then x else if i = 1 then y else z)"

fun sub3 :: "point3d \<Rightarrow> point3d \<Rightarrow> point3d" where
  "sub3 (Point3d a b c) (Point3d x y z) = Point3d (a - x) (b - y) (c - z)"

fun norm2 :: "point3d \<Rightarrow> real" where
  "norm2 (Point3d x y z) = sqrt (x * x + y * y + z * z)"

fun unit :: "point3d \<Rightarrow> point3d" where
  "unit (Point3d x y z) =
     (let n = norm2 (Point3d x y z) in Point3d (x / n) (y / n) (z / n))"

text \<open>
  Modelled from the spec: the node type \<^verbatim>\<open>NODE\<close> is a template parameter. The spec asks of
  it three capabilities: whether a given octant exists, whether the node has any children
  at all, and the retrieval of an existing child. A node owns up to eight children; an
  absent child is \<^term>\<open>None\<close>.
\<close>

datatype 'a OcTreeNode = OcTreeNode 'a "'a OcTreeNode option list"

fun itsChildren :: "'a OcTreeNode \<Rightarrow> 'a OcTreeNode option list" where
  "itsChildren (OcTreeNode v cs) = cs"

definition getChild :: "'a OcTreeNode \<Rightarrow> nat \<Rightarrow> 'a OcTreeNode option" where
  "getChild n i = (if i < length (itsChildren n) then itsChildren n ! i else None)"

definition childExists :: "'a OcTreeNode \<Rightarrow> nat \<Rightarrow> bool" where
  "childExists n i = (getChild n i \<noteq> None)"

definition hasChildren :: "'a OcTreeNode \<Rightarrow> bool" where
  "hasChildren n = list_ex (childExists n) [0..<8]"

type_synonym key = "16 word"


text \<open>
  The members of the class. \<^verbatim>\<open>tree_depth\<close> and \<^verbatim>\<open>tree_max_val\<close> are declared in the header,
  which is not part of the source file; they are natural numbers here, and no arithmetic
  on them overflows at the values the constructor gives them.
\<close>

record 'a OcTree =
  itsRoot :: "'a OcTreeNode option"
  tree_depth :: nat
  tree_max_val :: nat
  resolution :: real
  resolution_factor :: real
  tree_center :: point3d
  tree_size :: nat
  maxValue :: "real list"
  minValue :: "real list"
  sizeChanged :: bool

definition setResolution :: "real \<Rightarrow> 'a OcTree \<Rightarrow> 'a OcTree" where
  "setResolution r t =
     (let t1 = t\<lparr>resolution := r\<rparr>;
          t2 = t1\<lparr>resolution_factor := 1 / resolution t1\<rparr>;
          c = real (tree_max_val t2) / resolution_factor t2
      in t2\<lparr>tree_center := Point3d c c c\<rparr>)"

text \<open>
  The constructor: the initialiser list, then \<^verbatim>\<open>setResolution\<close>, then the bounding box.
  The two members that only \<^verbatim>\<open>setResolution\<close> writes start at a placeholder.
\<close>

definition OcTreeBase :: "real \<Rightarrow> 'a OcTree" where
  "OcTreeBase r =
     (let t0 = \<lparr>itsRoot = None, tree_depth = 16, tree_max_val = 32768, resolution = r,
                resolution_factor = 0, tree_center = Point3d 0 0 0, tree_size = 0,
                maxValue = [], minValue = [], sizeChanged = False\<rparr>;
          t1 = setResolution r t0;
          t2 = t1\<lparr>maxValue := replicate 3 (- 1000000), minValue := replicate 3 1000000\<rparr>
      in t2\<lparr>sizeChanged := True\<rparr>)"

section \<open>Coordinate-key codec\<close>

text \<open>
  \<^verbatim>\<open>genKey\<close> writes the key only when it returns true: \<^term>\<open>None\<close> is the return of false,
  with the caller's key untouched.
\<close>

definition genKey :: "'a OcTree \<Rightarrow> real \<Rightarrow> key option" where
  "genKey t val =
     (let scaled_val = \<lfloor>resolution_factor t * val\<rfloor> + int (tree_max_val t)
      in if scaled_val > 0 \<and> scaled_val < 2 * int (tree_max_val t)
         then Some (word_of_int scaled_val)
         else None)"

text \<open>
  The loop of \<^verbatim>\<open>genKeys\<close>, \<^verbatim>\<open>for (unsigned int i = 0; i < 3; i++)\<close>, from the counter \<open>i\<close>
  and the keys written so far; it stops at the first failure.
\<close>

function genKeys_loop :: "'a OcTree \<Rightarrow> point3d \<Rightarrow> nat \<Rightarrow> key list \<Rightarrow> key list option" where
  "genKeys_loop t point i keys =
     (if i < 3 then
        (case genKey t (coord point i) of
           None \<Rightarrow> None
         | Some k \<Rightarrow> genKeys_loop t point (i + 1) (keys @ [k]))
      else Some keys)"
  by pat_completeness auto
termination
  by (relation "measure (\<lambda>(t, point, i, keys). 3 - i)") auto

declare genKeys_loop.simps [simp del]

definition genKeys :: "'a OcTree \<Rightarrow> point3d \<Rightarrow> key list option" where
  "genKeys t point = genKeys_loop t point 0 []"

text \<open>
  \<^verbatim>\<open>genVal\<close> has an output parameter: the model takes the caller's prior contents of
  \<^verbatim>\<open>val\<close> and returns the flag together with the contents after the call.
\<close>

definition genVal :: "'a OcTree \<Rightarrow> key \<Rightarrow> real \<Rightarrow> bool \<times> real" where
  "genVal t key val =
     (let val = 0
      in if unat key \<ge> 2 * tree_max_val t then (False, val)
         else (True, ((real (unat key) - real (tree_max_val t)) + 0.5) * resolution t))"

section \<open>Octant addressing\<close>

definition genPos :: "key list \<Rightarrow> nat \<Rightarrow> nat" where
  "genPos key i =
     (let retval = 0;
          retval = (if (key ! 0) AND (push_bit i 1) \<noteq> 0 then retval + 1 else retval);
          retval = (if (key ! 1) AND (push_bit i 1) \<noteq> 0 then retval + 2 else retval);
          retval = (if (key ! 2) AND (push_bit i 1) \<noteq> 0 then retval + 4 else retval)
      in retval)"

section \<open>Point lookup\<close>

text \<open>
  What the source does on a null pointer or a failed assertion is an error value of the
  model.
\<close>

datatype error = NullPointerDereference | AssertionFailed

text \<open>
  The descent loop of \<^verbatim>\<open>search\<close>, \<^verbatim>\<open>for (int i = tree_depth - 1; i >= 0; i--)\<close>, from the
  current node and the current level. \<^verbatim>\<open>getChild\<close> is called only where \<^verbatim>\<open>childExists\<close>
  holds.
\<close>

function search_loop :: "key list \<Rightarrow> 'a OcTreeNode \<Rightarrow> int \<Rightarrow> 'a OcTreeNode option" where
  "search_loop key curNode i =
     (if i \<ge> 0 then
        (let pos = genPos key (nat i)
         in if childExists curNode pos
            then search_loop key (the (getChild curNode pos)) (i - 1)
            else if \<not> hasChildren curNode then Some curNode
            else None)
      else Some curNode)"
  by pat_completeness auto
termination
  by (relation "measure (\<lambda>(key, curNode, i). nat (i + 1))") auto

declare search_loop.simps [simp del]

text \<open>
  \<^verbatim>\<open>search\<close>: the keys of the three axes first (the same loop as \<^verbatim>\<open>genKeys\<close>), then the
  descent from the root. \<^term>\<open>Inr None\<close> is the return of \<^verbatim>\<open>NULL\<close>. The loop calls
  \<^verbatim>\<open>childExists\<close> on the root at once, which a null root does not survive.
\<close>

definition search :: "'a OcTree \<Rightarrow> point3d \<Rightarrow> error + 'a OcTreeNode option" where
  "search t val =
     (case genKeys t val of
        None \<Rightarrow> Inr None
      | Some key \<Rightarrow>
          (case itsRoot t of
             None \<Rightarrow> if int (tree_depth t) - 1 \<ge> 0 then Inl NullPointerDereference
                      else Inr None
           | Some rootNode \<Rightarrow> Inr (search_loop key rootNode (int (tree_depth t) - 1))))"

text \<open>
  The descent as the specification words it, along the list of octant indices from the
  coarsest level to the finest: descend into the octant's child if it exists; otherwise
  return the node if it has no children at all, and nothing if it has some.
\<close>

fun descend_octants :: "'a OcTreeNode \<Rightarrow> nat list \<Rightarrow> 'a OcTreeNode option" where
  "descend_octants n [] = Some n"
| "descend_octants n (pos # ps) =
     (case getChild n pos of
        Some c \<Rightarrow> descend_octants c ps
      | None \<Rightarrow> if hasChildren n then None else Some n)"

section \<open>Ray voxel traversal\<close>

text \<open>
  The local arrays of \<^verbatim>\<open>computeRay\<close>. An array of three entries is a list of length
  three, written at an index with \<open>xs[i := v]\<close>; the arrays start at a placeholder, where
  the source leaves them uninitialised until the first loop writes them.
\<close>

record ray_locals =
  voxelIdx :: "key list"
  endIdx :: "key list"
  step :: "int list"
  tMax :: "real list"
  tDelta :: "real list"

definition ray_locals0 :: ray_locals where
  "ray_locals0 =
     \<lparr>voxelIdx = [0, 0, 0], endIdx = [0, 0, 0], step = [0, 0, 0],
      tMax = [0, 0, 0], tDelta = [0, 0, 0]\<rparr>"

text \<open>
  The body of the initialization loop for the axis \<open>i\<close>: \<^term>\<open>None\<close> is the early
  \<^verbatim>\<open>return false\<close> of a coordinate of the origin or of the end point out of bounds.
\<close>

definition ray_init_axis ::
  "'a OcTree \<Rightarrow> point3d \<Rightarrow> point3d \<Rightarrow> point3d \<Rightarrow> nat \<Rightarrow> ray_locals \<Rightarrow> ray_locals option" where
  "ray_init_axis t origin endpoint direction i v =
     (case genKey t (coord origin i) of
        None \<Rightarrow> None
      | Some vk \<Rightarrow>
          (case genKey t (coord endpoint i) of
             None \<Rightarrow> None
           | Some ek \<Rightarrow>
               (let st = (if coord direction i > 0 then 1
                          else if coord direction i < 0 then - 1 else (0::int));
                    voxelBorder =
                      real_of_int (int (unat vk) - int (tree_max_val t)) * resolution t;
                    voxelBorder = (if st > 0 then voxelBorder + resolution t else voxelBorder);
                    tm = (if coord direction i \<noteq> 0
                          then (voxelBorder - coord origin i) / coord direction i
                          else 1000000);
                    td = (if coord direction i \<noteq> 0
                          then resolution t / \<bar>coord direction i\<bar>
                          else 1000000)
                in Some (v\<lparr>voxelIdx := (voxelIdx v)[i := vk],
                           endIdx := (endIdx v)[i := ek],
                           step := (step v)[i := st],
                           tMax := (tMax v)[i := tm],
                           tDelta := (tDelta v)[i := td]\<rparr>))))"

function ray_init ::
  "'a OcTree \<Rightarrow> point3d \<Rightarrow> point3d \<Rightarrow> point3d \<Rightarrow> nat \<Rightarrow> ray_locals \<Rightarrow> ray_locals option" where
  "ray_init t origin endpoint direction i v =
     (if i < 3 then
        (case ray_init_axis t origin endpoint direction i v of
           None \<Rightarrow> None
         | Some v' \<Rightarrow> ray_init t origin endpoint direction (i + 1) v')
      else Some v)"
  by pat_completeness auto
termination
  by (relation "measure (\<lambda>(t, origin, endpoint, direction, i, v). 3 - i)") auto

declare ray_init.simps [simp del]

text \<open>The choice of the axis to advance: \<^verbatim>\<open>find minimum tMax\<close>.\<close>

definition min_tMax :: "real list \<Rightarrow> nat" where
  "min_tMax tm =
     (if tm ! 0 < tm ! 1 then (if tm ! 0 < tm ! 2 then 0 else 2)
      else (if tm ! 1 < tm ! 2 then 1 else 2))"

text \<open>
  The decoding loop \<^verbatim>\<open>for (unsigned int j = 0; j < 3; j++)\<close> of the incremental phase;
  \<^term>\<open>None\<close> is its \<^verbatim>\<open>return false\<close>.
\<close>

function ray_decode :: "'a OcTree \<Rightarrow> key list \<Rightarrow> nat \<Rightarrow> real list \<Rightarrow> real list option" where
  "ray_decode t idx j val =
     (if j < 3 then
        (case genVal t (idx ! j) (val ! j) of
           (ok, x) \<Rightarrow> if \<not> ok then None else ray_decode t idx (j + 1) (val[j := x]))
      else Some val)"
  by pat_completeness auto
termination
  by (relation "measure (\<lambda>(t, idx, j, val). 3 - j)") auto

declare ray_decode.simps [simp del]

text \<open>
  One iteration of \<^verbatim>\<open>while (!done)\<close>. It either leaves the function, with the returned
  flag and the contents of \<^verbatim>\<open>_ray\<close> at that moment, or goes round again. The addition
  \<^verbatim>\<open>voxelIdx[i] += step[i]\<close> is on \<^verbatim>\<open>unsigned short\<close> and wraps around; the test that
  follows it is the test of the source, both comparisons on the wrapped value.
\<close>

datatype ray_outcome = Return bool "point3d list" | Continue ray_locals "point3d list"

definition ray_iteration ::
  "'a OcTree \<Rightarrow> point3d \<Rightarrow> real \<Rightarrow> ray_locals \<Rightarrow> point3d list \<Rightarrow> ray_outcome" where
  "ray_iteration t origin maxLength v ray =
     (let i = min_tMax (tMax v);
          v = v\<lparr>voxelIdx := (voxelIdx v)[i := voxelIdx v ! i + word_of_int (step v ! i)]\<rparr>
      in if uint (voxelIdx v ! i) \<ge> 0 \<and> uint (voxelIdx v ! i) < 2 * int (tree_max_val t)
         then
           (let v = v\<lparr>tMax := (tMax v)[i := tMax v ! i + tDelta v ! i]\<rparr>
            in case ray_decode t (voxelIdx v) 0 [0, 0, 0] of
                 None \<Rightarrow> Return False ray
               | Some val \<Rightarrow>
                   (let value = Point3d (val ! 0) (val ! 1) (val ! 2)
                    in if norm2 (sub3 value origin) > maxLength then Return True ray
                       else Continue v (ray @ [value])))
         else Return False ray)"

text \<open>
  The loop may run forever, so it is a partial function: \<^term>\<open>None\<close> is the call that does
  not return.
\<close>

partial_function (option) ray_loop ::
  "'a OcTree \<Rightarrow> point3d \<Rightarrow> real \<Rightarrow> ray_locals \<Rightarrow> point3d list \<Rightarrow> (bool \<times> point3d list) option" where
  "ray_loop t origin maxLength v ray =
     (case ray_iteration t origin maxLength v ray of
        Return b r \<Rightarrow> Some (b, r)
      | Continue v' r \<Rightarrow> ray_loop t origin maxLength v' r)"

text \<open>
  \<^verbatim>\<open>computeRay\<close> takes the caller's contents of \<^verbatim>\<open>_ray\<close> and returns the flag with the
  contents of \<^verbatim>\<open>_ray\<close> after the call.
\<close>

definition computeRay ::
  "'a OcTree \<Rightarrow> point3d \<Rightarrow> point3d \<Rightarrow> point3d list \<Rightarrow> (bool \<times> point3d list) option" where
  "computeRay t origin endpoint ray =
     (let ray = [];
          direction = unit (sub3 endpoint origin);
          maxLength = norm2 (sub3 endpoint origin)
      in case ray_init t origin endpoint direction 0 ray_locals0 of
           None \<Rightarrow> Some (False, ray)
         | Some v \<Rightarrow>
             if voxelIdx v ! 0 = endIdx v ! 0 \<and> voxelIdx v ! 1 = endIdx v ! 1
                \<and> voxelIdx v ! 2 = endIdx v ! 2
             then Some (True, ray)
             else ray_loop t origin maxLength v ray)"

section \<open>Tree enumeration\<close>






section \<open>Concrete trees and rays\<close>

text \<open>The tree of the constructor at resolution 1, and a tree with a root and one leaf.\<close>

definition unit_tree :: "unit OcTree" where
  "unit_tree = OcTreeBase 1"




text \<open>
  A ray near the upper face of the volume: the origin lies in the last voxel of axis 0
  (index 65535), the end point in the same voxel of axis 0 and one voxel further on axis 1.
\<close>

definition wrap_origin :: point3d where
  "wrap_origin = Point3d 32767.5 0.875 0.5"

definition wrap_end :: point3d where
  "wrap_end = Point3d 32767.875 1.375 0.5"

definition wrap_locals0 :: ray_locals where
  "wrap_locals0 =
     \<lparr>voxelIdx = [65535, 32768, 32768], endIdx = [65535, 32769, 32768], step = [1, 1, 0],
      tMax = [5 / 6, 5 / 32, 1000000], tDelta = [5 / 3, 5 / 4, 1000000]\<rparr>"

definition wrap_locals1 :: ray_locals where
  "wrap_locals1 =
     \<lparr>voxelIdx = [65535, 32769, 32768], endIdx = [65535, 32769, 32768], step = [1, 1, 0],
      tMax = [5 / 6, 45 / 32, 1000000], tDelta = [5 / 3, 5 / 4, 1000000]\<rparr>"

definition wrap_point :: point3d where
  "wrap_point = Point3d 32767.5 1.5 0.5"

text \<open>
  A ray of direction \<open>(2/3, 2/3, 1/3)\<close> from a point on the diagonal of the plane of the
  axes 0 and 1: its first crossings of a voxel boundary on the axes 0 and 1 are at the same
  parameter 3/4, and after two iterations all three axes are at the parameter 9/4.
\<close>

definition tie_origin :: point3d where
  "tie_origin = Point3d 0.5 0.5 0.25"

definition tie_end :: point3d where
  "tie_end = Point3d 1.5 1.5 0.75"

definition tie_locals0 :: ray_locals where
  "tie_locals0 =
     \<lparr>voxelIdx = [32768, 32768, 32768], endIdx = [32769, 32769, 32768], step = [1, 1, 1],
      tMax = [3 / 4, 3 / 4, 9 / 4], tDelta = [3 / 2, 3 / 2, 3]\<rparr>"

definition tie_locals1 :: ray_locals where
  "tie_locals1 =
     \<lparr>voxelIdx = [32768, 32769, 32768], endIdx = [32769, 32769, 32768], step = [1, 1, 1],
      tMax = [3 / 4, 9 / 4, 9 / 4], tDelta = [3 / 2, 3 / 2, 3]\<rparr>"

definition tie_locals2 :: ray_locals where
  "tie_locals2 =
     \<lparr>voxelIdx = [32769, 32769, 32768], endIdx = [32769, 32769, 32768], step = [1, 1, 1],
      tMax = [9 / 4, 9 / 4, 9 / 4], tDelta = [3 / 2, 3 / 2, 3]\<rparr>"

definition tie_point1 :: point3d where
  "tie_point1 = Point3d 0.5 1.5 0.5"

definition tie_point2 :: point3d where
  "tie_point2 = Point3d 1.5 1.5 0.5"

text \<open>
  A ray of direction \<open>(-3/5, -4/5, 0)\<close> from a corner of a voxel: it returns two points at
  the same distance from the origin.
\<close>

definition eq_origin :: point3d where
  "eq_origin = Point3d 1 1 0.5"

definition eq_end :: point3d where
  "eq_end = Point3d 0.25 0 0.5"

definition eq_locals0 :: ray_locals where
  "eq_locals0 =
     \<lparr>voxelIdx = [32769, 32769, 32768], endIdx = [32768, 32768, 32768], step = [- 1, - 1, 0],
      tMax = [0, 0, 1000000], tDelta = [5 / 3, 5 / 4, 1000000]\<rparr>"

definition eq_locals1 :: ray_locals where
  "eq_locals1 =
     \<lparr>voxelIdx = [32769, 32768, 32768], endIdx = [32768, 32768, 32768], step = [- 1, - 1, 0],
      tMax = [0, 5 / 4, 1000000], tDelta = [5 / 3, 5 / 4, 1000000]\<rparr>"

definition eq_locals2 :: ray_locals where
  "eq_locals2 =
     \<lparr>voxelIdx = [32768, 32768, 32768], endIdx = [32768, 32768, 32768], step = [- 1, - 1, 0],
      tMax = [5 / 3, 5 / 4, 1000000], tDelta = [5 / 3, 5 / 4, 1000000]\<rparr>"

definition eq_point1 :: point3d where
  "eq_point1 = Point3d 1.5 0.5 0.5"

definition eq_point2 :: point3d where
  "eq_point2 = Point3d 0.5 0.5 0.5"

text \<open>
  A tree of three levels below the root, with numbered nodes: the root has the single
  child of octant 5, this child the single child of octant 2, which has no children. And
  the tree whose root has no children.
\<close>

definition lookup_leaf :: "nat OcTreeNode" where
  "lookup_leaf = OcTreeNode 2 []"

definition lookup_mid :: "nat OcTreeNode" where
  "lookup_mid = OcTreeNode 1 [None, None, Some lookup_leaf, None, None, None, None, None]"

definition lookup_root :: "nat OcTreeNode" where
  "lookup_root = OcTreeNode 0 [None, None, None, None, None, Some lookup_mid, None, None]"

definition lookup_tree :: "nat OcTree" where
  "lookup_tree = (OcTreeBase 1)\<lparr>itsRoot := Some lookup_root\<rparr>"

definition root_only_tree :: "nat OcTree" where
  "root_only_tree = (OcTreeBase 1)\<lparr>itsRoot := Some lookup_leaf\<rparr>"







text \<open>
  A ray along axis 0 of the tree of the constructor, from the second voxel to the last:
  the center of the last voxel is nearer to the origin than the end of the ray is, so the
  traversal goes on past it. \<open>loop_inv\<close> is what every iteration of this traversal keeps,
  and \<open>center\<close> the value that \<^verbatim>\<open>genVal\<close> decodes.
\<close>

definition center :: "'a OcTree \<Rightarrow> key \<Rightarrow> real" where
  "center t k = (real (unat k) - real (tree_max_val t) + 1 / 2) * resolution t"

definition loop_origin :: point3d where
  "loop_origin = Point3d (- 32767) 0.5 0.5"

definition loop_end :: point3d where
  "loop_end = Point3d 32767.9 0.5 0.5"

definition loop_locals0 :: ray_locals where
  "loop_locals0 =
     \<lparr>voxelIdx = [1, 32768, 32768], endIdx = [65535, 32768, 32768], step = [1, 0, 0],
      tMax = [1, 1000000, 1000000], tDelta = [1, 1000000, 1000000]\<rparr>"

definition loop_inv :: "ray_locals \<Rightarrow> bool" where
  "loop_inv v \<longleftrightarrow> step v = [1, 0, 0] \<and> (\<exists>k. voxelIdx v = [k, 32768, 32768])"

section \<open>Properties of the codec\<close>

lemma setResolution_fields:
  "resolution (setResolution r t) = r"
  "resolution_factor (setResolution r t) = 1 / r"
  "tree_max_val (setResolution r t) = tree_max_val t"
  "tree_depth (setResolution r t) = tree_depth t"
  "itsRoot (setResolution r t) = itsRoot t"
  by (simp_all add: setResolution_def Let_def)

lemma OcTreeBase_fields:
  "resolution (OcTreeBase r) = r"
  "resolution_factor (OcTreeBase r) = 1 / r"
  "tree_max_val (OcTreeBase r) = 32768"
  "tree_depth (OcTreeBase r) = 16"
  "itsRoot (OcTreeBase r) = None"
  by (simp_all add: OcTreeBase_def Let_def setResolution_fields)

lemma genKeys_unrolled:
  "genKeys t p =
     (case genKey t (coord p 0) of
        None \<Rightarrow> None
      | Some k0 \<Rightarrow>
          (case genKey t (coord p 1) of
             None \<Rightarrow> None
           | Some k1 \<Rightarrow>
               (case genKey t (coord p 2) of
                  None \<Rightarrow> None
                | Some k2 \<Rightarrow> Some [k0, k1, k2])))"
  by (simp add: genKeys_def genKeys_loop.simps numeral_2_eq_2 split: option.split)

lemma genKeys_Some:
  assumes "genKeys t p = Some ks"
  shows "length ks = 3 \<and> (\<forall>j<3. genKey t (coord p j) = Some (ks ! j))"
  using assms unfolding genKeys_unrolled
  by (auto simp add: less_Suc_eq numeral_3_eq_3 numeral_2_eq_2 split: option.splits)

lemma floor_half_shift: "\<lfloor>real_of_int z + 1 / 2\<rfloor> = z"
  by linarith

lemma genKey_Some_iff:
  assumes "2 * tree_max_val t \<le> 65536"
  shows "genKey t v = Some k \<longleftrightarrow>
           0 < \<lfloor>resolution_factor t * v\<rfloor> + int (tree_max_val t) \<and>
           \<lfloor>resolution_factor t * v\<rfloor> + int (tree_max_val t) < 2 * int (tree_max_val t) \<and>
           uint k = \<lfloor>resolution_factor t * v\<rfloor> + int (tree_max_val t)"
proof -
  define s where "s = \<lfloor>resolution_factor t * v\<rfloor> + int (tree_max_val t)"
  have eq: "genKey t v = (if 0 < s \<and> s < 2 * int (tree_max_val t)
                          then Some (word_of_int s) else None)"
    by (simp add: genKey_def s_def Let_def)
  have "(word_of_int s :: key) = k \<longleftrightarrow> uint k = s" if "0 < s" "s < 2 * int (tree_max_val t)"
  proof -
    from that assms have "0 \<le> s" "s < 2 ^ 16" by simp_all
    then have "uint (word_of_int s :: key) = s"
      by (simp add: uint_word_of_int take_bit_int_eq_self)
    then show ?thesis by (metis word_of_int_uint)
  qed
  then show ?thesis unfolding eq s_def [symmetric] by auto
qed


lemma genKey_None_iff:
  "genKey t v = None \<longleftrightarrow>
     \<lfloor>resolution_factor t * v\<rfloor> + int (tree_max_val t) \<le> 0 \<or>
     2 * int (tree_max_val t) \<le> \<lfloor>resolution_factor t * v\<rfloor> + int (tree_max_val t)"
  by (auto simp add: genKey_def Let_def)

lemma genVal_center:
  "unat k < 2 * tree_max_val t \<Longrightarrow>
     genVal t k v0 = (True, (real (unat k) - real (tree_max_val t) + 1 / 2) * resolution t)"
  by (simp add: genVal_def)

lemma scaled_of_center:
  assumes "r \<noteq> 0"
  shows "\<lfloor>1 / r * ((real n - real m + 1 / 2) * r)\<rfloor> + int m = int n"
proof -
  have "1 / r * ((real n - real m + 1 / 2) * r) = real_of_int (int n - int m) + 1 / 2"
    using assms by simp
  then have "\<lfloor>1 / r * ((real n - real m + 1 / 2) * r)\<rfloor> = int n - int m"
    by (simp only: floor_half_shift)
  then show ?thesis by simp
qed

text \<open>
  C1 (codec round-trip). On a tree whose resolution \<open>r\<close> (not zero) was set by
  \<^verbatim>\<open>setResolution\<close>, as the constructor does, every key \<open>k\<close> with \<open>0 < k < 2 * tree_max_val\<close>
  decodes with success, and encoding the decoded value succeeds and gives back \<open>k\<close>.
\<close>

theorem codec_round_trip:
  assumes "r \<noteq> 0" and "0 < unat k" and "unat k < 2 * tree_max_val t"
  shows "fst (genVal (setResolution r t) k v0) \<and>
         genKey (setResolution r t) (snd (genVal (setResolution r t) k v0)) = Some k"
proof -
  let ?t = "setResolution r t"
  have dec: "genVal ?t k v0 = (True, (real (unat k) - real (tree_max_val t) + 1 / 2) * r)"
    using assms(3) by (simp add: genVal_center setResolution_fields)
  let ?v = "(real (unat k) - real (tree_max_val t) + 1 / 2) * r"
  have sc: "\<lfloor>resolution_factor ?t * ?v\<rfloor> + int (tree_max_val ?t) = int (unat k)"
    by (simp only: setResolution_fields scaled_of_center [OF assms(1)])
  have rng: "0 < int (unat k) \<and> int (unat k) < 2 * int (tree_max_val ?t)"
    using assms(2,3) by (simp only: setResolution_fields) linarith
  have "genKey ?t ?v = Some (word_of_int (int (unat k)))"
    unfolding genKey_def Let_def sc using rng by simp
  then show ?thesis by (simp add: dec)
qed

theorem codec_round_trip_witness:
  "(1::real) \<noteq> 0 \<and> 0 < unat (32768 :: key)
     \<and> unat (32768 :: key) < 2 * tree_max_val (OcTreeBase 1 :: unit OcTree)
     \<and> fst (genVal (setResolution 1 (OcTreeBase 1 :: unit OcTree)) 32768 7)
     \<and> genKey (setResolution 1 (OcTreeBase 1 :: unit OcTree))
          (snd (genVal (setResolution 1 (OcTreeBase 1 :: unit OcTree)) 32768 7)) = Some 32768"
proof -
  have h1: "(1::real) \<noteq> 0" by simp
  have h2: "0 < unat (32768 :: key)" by simp
  have h3: "unat (32768 :: key) < 2 * tree_max_val (OcTreeBase 1 :: unit OcTree)"
    by (simp add: OcTreeBase_fields)
  show ?thesis using h1 h2 h3 codec_round_trip [OF h1 h2 h3, of 7] by simp
qed

text \<open>
  C6 (codec bounds). With \<open>scaled = floor (resolution_factor * value) + tree_max_val\<close>,
  \<^verbatim>\<open>genKey\<close> succeeds exactly when \<open>0 < scaled < 2 * tree_max_val\<close>, and the key it writes is
  \<open>scaled\<close>; it fails exactly when \<open>scaled \<le> 0\<close> or \<open>scaled \<ge> 2 * tree_max_val\<close>. The key is
  16 bits wide and holds \<open>scaled\<close> for a \<open>tree_max_val\<close> of at most 32768, the value of the
  constructor. On the tree constructed with resolution 1, \<^verbatim>\<open>genKey(0.5)\<close> is 32768 and
  \<^verbatim>\<open>genVal(32768)\<close> is 0.5.
\<close>

theorem codec_bounds:
  assumes "tree_max_val t \<le> 32768"
  shows "(genKey t v = Some k \<longleftrightarrow>
            0 < \<lfloor>resolution_factor t * v\<rfloor> + int (tree_max_val t) \<and>
            \<lfloor>resolution_factor t * v\<rfloor> + int (tree_max_val t) < 2 * int (tree_max_val t) \<and>
            uint k = \<lfloor>resolution_factor t * v\<rfloor> + int (tree_max_val t))
       \<and> (genKey t v = None \<longleftrightarrow>
            \<lfloor>resolution_factor t * v\<rfloor> + int (tree_max_val t) \<le> 0 \<or>
            2 * int (tree_max_val t) \<le> \<lfloor>resolution_factor t * v\<rfloor> + int (tree_max_val t))
       \<and> genKey (OcTreeBase 1 :: 'b OcTree) 0.5 = Some 32768
       \<and> genVal (OcTreeBase 1 :: 'b OcTree) 32768 v0 = (True, 0.5)"
proof -
  have a: "2 * tree_max_val t \<le> 65536" using assms by simp
  have c: "genKey (OcTreeBase 1 :: 'b OcTree) 0.5 = Some 32768"
    by (simp add: genKey_def OcTreeBase_fields)
  have d: "genVal (OcTreeBase 1 :: 'b OcTree) 32768 v0 = (True, 0.5)"
    by (simp add: genVal_def OcTreeBase_fields)
  show ?thesis
    using genKey_Some_iff [OF a, of v k] genKey_None_iff [of t v] c d by blast
qed

theorem codec_bounds_witness:
  "tree_max_val (OcTreeBase 1 :: unit OcTree) \<le> 32768
     \<and> genKey (OcTreeBase 1 :: unit OcTree) (- 32768) = None
     \<and> genKey (OcTreeBase 1 :: unit OcTree) 32768 = None
     \<and> genKey (OcTreeBase 1 :: unit OcTree) (32767 + 1 / 2) = Some 65535
     \<and> genKey (OcTreeBase 1 :: unit OcTree) (- 32767) = Some 1"
proof -
  let ?t = "OcTreeBase 1 :: unit OcTree"
  have h: "tree_max_val ?t \<le> 32768" by (simp add: OcTreeBase_fields)
  have f1: "\<lfloor>resolution_factor ?t * (- 32768)\<rfloor> + int (tree_max_val ?t) = 0"
    by (simp add: OcTreeBase_fields)
  have f2: "\<lfloor>resolution_factor ?t * 32768\<rfloor> + int (tree_max_val ?t) = 65536"
    by (simp add: OcTreeBase_fields)
  have f3: "\<lfloor>resolution_factor ?t * (32767 + 1 / 2)\<rfloor> + int (tree_max_val ?t) = 65535"
    by (simp add: OcTreeBase_fields)
  have f4: "\<lfloor>resolution_factor ?t * (- 32767)\<rfloor> + int (tree_max_val ?t) = 1"
    by (simp add: OcTreeBase_fields)
  have "genKey ?t (- 32768) = None"
    unfolding codec_bounds [OF h, of "- 32768" 0 0, THEN conjunct2, THEN conjunct1] f1
    by (simp add: OcTreeBase_fields)
  moreover have "genKey ?t 32768 = None"
    unfolding codec_bounds [OF h, of 32768 0 0, THEN conjunct2, THEN conjunct1] f2
    by (simp add: OcTreeBase_fields)
  moreover have "genKey ?t (32767 + 1 / 2) = Some 65535"
    unfolding codec_bounds [OF h, of "32767 + 1 / 2" 65535 0, THEN conjunct1] f3
    by (simp add: OcTreeBase_fields)
  moreover have "genKey ?t (- 32767) = Some 1"
    unfolding codec_bounds [OF h, of "- 32767" 1 0, THEN conjunct1] f4
    by (simp add: OcTreeBase_fields)
  ultimately show ?thesis using h by simp
qed

text \<open>
  C10 (the output parameter of \<^verbatim>\<open>genVal\<close>). Whatever \<^verbatim>\<open>val\<close> held before the call, a key
  \<open>k \<ge> 2 * tree_max_val\<close> gives failure with \<^verbatim>\<open>val\<close> equal to 0, and a key
  \<open>k < 2 * tree_max_val\<close> gives success with \<^verbatim>\<open>val\<close> equal to the voxel center
  \<open>(k - tree_max_val + 0.5) * resolution\<close>.
\<close>

theorem genVal_overwrites:
  "genVal t k v0 =
     (if 2 * tree_max_val t \<le> unat k then (False, 0)
      else (True, (real (unat k) - real (tree_max_val t) + 0.5) * resolution t))"
  by (simp add: genVal_def)


section \<open>Properties of the point lookup\<close>

lemma genPos_less_8: "genPos key i < 8"
  by (simp add: genPos_def Let_def)

lemma hasChildren_iff: "hasChildren n \<longleftrightarrow> (\<exists>i<8. childExists n i)"
  by (auto simp add: hasChildren_def list_ex_iff)

lemma search_loop_descend:
  "search_loop key n (int d - 1) = descend_octants n (map (genPos key) (rev [0..<d]))"
proof (induction d arbitrary: n)
  case 0
  show ?case by (subst search_loop.simps) simp
next
  case (Suc d)
  have lvl: "int (Suc d) - 1 - 1 = int d - 1" "nat (int (Suc d) - 1) = d"
    by simp_all
  show ?case
  proof (cases "getChild n (genPos key d)")
    case None
    then show ?thesis
      by (subst search_loop.simps) (simp add: childExists_def Let_def)
  next
    case (Some c)
    then show ?thesis
      by (subst search_loop.simps)
         (simp add: childExists_def Let_def Suc.IH [of c, unfolded lvl])
  qed
qed

lemma descend_leaf:
  assumes "\<not> hasChildren n" and "\<forall>p \<in> set ps. p < 8"
  shows "descend_octants n ps = Some n"
proof (cases ps)
  case Nil
  then show ?thesis by simp
next
  case (Cons p ps')
  with assms(2) have "p < 8" by simp
  with assms(1) have "getChild n p = None"
    by (auto simp add: hasChildren_iff childExists_def)
  with Cons assms(1) show ?thesis by simp
qed

lemma genPos_bits:
  "genPos key i =
     (if bit (key ! 0) i then 1 else 0) + (if bit (key ! 1) i then 2 else 0)
       + (if bit (key ! 2) i then 4 else 0)"
  by (simp add: genPos_def Let_def bit_iff_and_push_bit_not_eq_0)

text \<open>
  C5 (search descent). For a point whose three coordinates encode, on a tree with a root,
  the keys \<open>key\<close> of the descent are the encoded keys of the axes 0, 1 and 2, and
  \<^verbatim>\<open>search\<close> returns what the descent from the root returns along the octant indices of the
  levels \<open>tree_depth - 1, ..., 0\<close>, the octant index of a level being bit \<open>level\<close> of the key
  of axis 0, plus twice that bit of the key of axis 1, plus four times that bit of the key
  of axis 2. The descent enters the octant's child where it exists, returns the current
  node where the child is missing and the node has no children at all, and returns
  nothing where the child is missing and the node has other children. A root without
  children is returned for every such point.
\<close>

theorem search_descent:
  assumes "genKeys t p = Some key" and "itsRoot t = Some rootNode"
  shows "length key = 3 \<and> (\<forall>j<3. genKey t (coord p j) = Some (key ! j))
       \<and> search t p =
           Inr (descend_octants rootNode
                  (map (\<lambda>level. (if bit (key ! 0) level then 1 else 0)
                                + (if bit (key ! 1) level then 2 else 0)
                                + (if bit (key ! 2) level then 4 else 0))
                       (rev [0..<tree_depth t])))
       \<and> (\<not> hasChildren rootNode \<longrightarrow> search t p = Inr (Some rootNode))"
proof -
  let ?path = "map (genPos key) (rev [0..<tree_depth t])"
  have a: "search t p = Inr (descend_octants rootNode ?path)"
    using assms by (simp add: search_def search_loop_descend)
  have "\<forall>q \<in> set ?path. q < 8" by (simp add: genPos_less_8)
  then have "\<not> hasChildren rootNode \<Longrightarrow> descend_octants rootNode ?path = Some rootNode"
    by (rule descend_leaf [rotated])
  with a have b: "\<not> hasChildren rootNode \<longrightarrow> search t p = Inr (Some rootNode)" by simp
  have c: "genPos key = (\<lambda>level. (if bit (key ! 0) level then 1 else 0)
                                + (if bit (key ! 1) level then 2 else 0)
                                + (if bit (key ! 2) level then 4 else 0))"
    by (rule ext) (rule genPos_bits)
  from a b genKeys_Some [OF assms(1)] show ?thesis unfolding c by blast
qed

theorem search_descent_witness:
  "genKeys lookup_tree (Point3d 0.5 (- 16383.5) 0.5) = Some [32768, 16384, 32768]
     \<and> genKeys lookup_tree (Point3d 0.5 (- 32766.5) 0.5) = Some [32768, 1, 32768]
     \<and> genKeys lookup_tree (Point3d 0.5 0.5 0.5) = Some [32768, 32768, 32768]
     \<and> itsRoot lookup_tree = Some lookup_root
     \<and> search lookup_tree (Point3d 0.5 (- 16383.5) 0.5) = Inr (Some lookup_leaf)
     \<and> search lookup_tree (Point3d 0.5 (- 32766.5) 0.5) = Inr None
     \<and> search lookup_tree (Point3d 0.5 0.5 0.5) = Inr None
     \<and> genKey lookup_tree (coord (Point3d 0.5 (- 16383.5) 0.5) 1) = Some 16384
     \<and> itsRoot root_only_tree = Some lookup_leaf
     \<and> \<not> hasChildren lookup_leaf
     \<and> search root_only_tree (Point3d 0.5 (- 16383.5) 0.5) = Inr (Some lookup_leaf)"
proof -
  have ka: "genKeys lookup_tree (Point3d 0.5 (- 16383.5) 0.5) = Some [32768, 16384, 32768]"
    and kb: "genKeys lookup_tree (Point3d 0.5 (- 32766.5) 0.5) = Some [32768, 1, 32768]"
    and kc: "genKeys lookup_tree (Point3d 0.5 0.5 0.5) = Some [32768, 32768, 32768]"
    and kr: "genKeys root_only_tree (Point3d 0.5 (- 16383.5) 0.5) = Some [32768, 16384, 32768]"
    by (simp_all add: genKeys_unrolled genKey_def lookup_tree_def root_only_tree_def
          OcTreeBase_fields)
  have r: "itsRoot lookup_tree = Some lookup_root"
    and r0: "itsRoot root_only_tree = Some lookup_leaf"
    by (simp_all add: lookup_tree_def root_only_tree_def)
  have d: "tree_depth lookup_tree = 16"
    by (simp add: lookup_tree_def OcTreeBase_fields)
  have nc: "\<not> hasChildren lookup_leaf"
    by (simp add: hasChildren_iff childExists_def getChild_def lookup_leaf_def)
  have ea: "descend_octants lookup_root
     (map (\<lambda>level. (if bit ([32768, 16384, 32768 :: key] ! 0) level then 1 else 0)
                   + (if bit ([32768, 16384, 32768 :: key] ! 1) level then 2 else 0)
                   + (if bit ([32768, 16384, 32768 :: key] ! 2) level then 4 else 0))
          (rev [0..<16])) = Some lookup_leaf"
    by code_simp
  have eb: "descend_octants lookup_root
     (map (\<lambda>level. (if bit ([32768, 1, 32768 :: key] ! 0) level then 1 else 0)
                   + (if bit ([32768, 1, 32768 :: key] ! 1) level then 2 else 0)
                   + (if bit ([32768, 1, 32768 :: key] ! 2) level then 4 else 0))
          (rev [0..<16])) = None"
    by code_simp
  have ec: "descend_octants lookup_root
     (map (\<lambda>level. (if bit ([32768, 32768, 32768 :: key] ! 0) level then 1 else 0)
                   + (if bit ([32768, 32768, 32768 :: key] ! 1) level then 2 else 0)
                   + (if bit ([32768, 32768, 32768 :: key] ! 2) level then 4 else 0))
          (rev [0..<16])) = None"
    by code_simp
  have sa: "search lookup_tree (Point3d 0.5 (- 16383.5) 0.5) = Inr (Some lookup_leaf)"
    using search_descent [OF ka r] by (simp only: d ea)
  have sb: "search lookup_tree (Point3d 0.5 (- 32766.5) 0.5) = Inr None"
    using search_descent [OF kb r] by (simp only: d eb)
  have sc: "search lookup_tree (Point3d 0.5 0.5 0.5) = Inr None"
    using search_descent [OF kc r] by (simp only: d ec)
  have "\<forall>j<3. genKey lookup_tree (coord (Point3d 0.5 (- 16383.5) 0.5) j)
                 = Some ([32768, 16384, 32768] ! j)"
    using search_descent [OF ka r] by blast
  moreover have "(1 :: nat) < 3" by simp
  ultimately have "genKey lookup_tree (coord (Point3d 0.5 (- 16383.5) 0.5) 1)
                     = Some ([32768, 16384, 32768] ! 1)"
    by blast
  then have ax: "genKey lookup_tree (coord (Point3d 0.5 (- 16383.5) 0.5) 1) = Some 16384"
    by simp
  have sr: "search root_only_tree (Point3d 0.5 (- 16383.5) 0.5) = Inr (Some lookup_leaf)"
    using search_descent [OF kr r0] nc by blast
  from ka kb kc r sa sb sc ax r0 nc sr show ?thesis by blast
qed

section \<open>Properties of the ray traversal\<close>

subsection \<open>The initialization phase\<close>

lemma ray_init_unrolled:
  "ray_init t origin endpoint d 0 v =
     (case ray_init_axis t origin endpoint d 0 v of
        None \<Rightarrow> None
      | Some v1 \<Rightarrow>
          (case ray_init_axis t origin endpoint d 1 v1 of
             None \<Rightarrow> None
           | Some v2 \<Rightarrow> ray_init_axis t origin endpoint d 2 v2))"
  by (simp add: ray_init.simps numeral_2_eq_2 split: option.split)

lemma ray_init_axis_Some:
  assumes "ray_init_axis t origin endpoint d i v = Some v'"
  shows "\<exists>vk ek st.
           genKey t (coord origin i) = Some vk \<and> genKey t (coord endpoint i) = Some ek \<and>
           (st = - 1 \<or> st = 0 \<or> st = 1) \<and>
           voxelIdx v' = (voxelIdx v)[i := vk] \<and> endIdx v' = (endIdx v)[i := ek] \<and>
           step v' = (step v)[i := st] \<and>
           length (tMax v') = length (tMax v) \<and> length (tDelta v') = length (tDelta v)"
proof -
  from assms obtain vk ek where
    k: "genKey t (coord origin i) = Some vk" "genKey t (coord endpoint i) = Some ek"
    by (auto simp add: ray_init_axis_def split: option.splits)
  define st :: int where
    "st = (if coord d i > 0 then 1 else if coord d i < 0 then - 1 else 0)"
  have st: "st = - 1 \<or> st = 0 \<or> st = 1" by (simp add: st_def)
  from assms k have
    "voxelIdx v' = (voxelIdx v)[i := vk]" "endIdx v' = (endIdx v)[i := ek]"
    "step v' = (step v)[i := st]"
    "length (tMax v') = length (tMax v)" "length (tDelta v') = length (tDelta v)"
    by (auto simp add: ray_init_axis_def Let_def st_def)
  with k st show ?thesis by blast
qed

lemma ray_init_axis_None:
  "ray_init_axis t origin endpoint d i v = None \<longleftrightarrow>
     genKey t (coord origin i) = None \<or> genKey t (coord endpoint i) = None"
  by (auto simp add: ray_init_axis_def Let_def split: option.splits)

lemma genKeys_None:
  "genKeys t p = None \<longleftrightarrow>
     genKey t (coord p 0) = None \<or> genKey t (coord p 1) = None \<or> genKey t (coord p 2) = None"
  unfolding genKeys_unrolled by (simp split: option.split)

lemma ray_init_None:
  "ray_init t origin endpoint d 0 v = None \<longleftrightarrow>
     genKeys t origin = None \<or> genKeys t endpoint = None"
proof (cases "ray_init_axis t origin endpoint d 0 v")
  case None
  then have "ray_init t origin endpoint d 0 v = None"
    unfolding ray_init_unrolled by simp
  moreover from None
  have "genKey t (coord origin 0) = None \<or> genKey t (coord endpoint 0) = None"
    by (simp only: ray_init_axis_None)
  ultimately show ?thesis
    unfolding genKeys_None by blast
next
  case a0: (Some v1)
  then have "ray_init_axis t origin endpoint d 0 v \<noteq> None" by simp
  then have k0: "genKey t (coord origin 0) \<noteq> None" "genKey t (coord endpoint 0) \<noteq> None"
    by (simp_all only: ray_init_axis_None de_Morgan_disj not_False_eq_True)
  show ?thesis
  proof (cases "ray_init_axis t origin endpoint d 1 v1")
    case None
    with a0 have "ray_init t origin endpoint d 0 v = None"
      unfolding ray_init_unrolled by simp
    moreover from None
    have "genKey t (coord origin 1) = None \<or> genKey t (coord endpoint 1) = None"
      by (simp only: ray_init_axis_None)
    ultimately show ?thesis
      unfolding genKeys_None by blast
  next
    case a1: (Some v2)
    then have "ray_init_axis t origin endpoint d 1 v1 \<noteq> None" by simp
    then have k1: "genKey t (coord origin 1) \<noteq> None" "genKey t (coord endpoint 1) \<noteq> None"
      by (simp_all only: ray_init_axis_None de_Morgan_disj not_False_eq_True)
    have "ray_init t origin endpoint d 0 v = ray_init_axis t origin endpoint d 2 v2"
      unfolding ray_init_unrolled by (simp only: a0 a1 option.case)
    then have "ray_init t origin endpoint d 0 v = None \<longleftrightarrow>
                 genKey t (coord origin 2) = None \<or> genKey t (coord endpoint 2) = None"
      by (simp only: ray_init_axis_None)
    with k0 k1 show ?thesis
      by (auto simp add: genKeys_None)
  qed
qed

lemma ray_init_Some:
  assumes "ray_init t origin endpoint d 0 ray_locals0 = Some v"
  shows "genKeys t origin = Some (voxelIdx v) \<and> genKeys t endpoint = Some (endIdx v)
       \<and> length (step v) = 3 \<and> (\<forall>i<3. step v ! i \<in> {- 1, 0, 1})
       \<and> length (tMax v) = 3 \<and> length (tDelta v) = 3"
proof -
  from assms obtain v1 v2 where
    a: "ray_init_axis t origin endpoint d 0 ray_locals0 = Some v1"
       "ray_init_axis t origin endpoint d 1 v1 = Some v2"
       "ray_init_axis t origin endpoint d 2 v2 = Some v"
    unfolding ray_init_unrolled by (auto split: option.splits)
  from ray_init_axis_Some [OF a(1)] ray_init_axis_Some [OF a(2)] ray_init_axis_Some [OF a(3)]
  show ?thesis
    unfolding genKeys_unrolled
    by (auto simp add: ray_locals0_def less_Suc_eq numeral_3_eq_3)
qed


subsection \<open>The failure branches of the loop\<close>

text \<open>
  A voxel index has 16 bits, so it is below \<open>2 * tree_max_val = 65536\<close> whatever was added
  to it: on a tree of the constructor, the boundary test of the loop always passes and
  \<^verbatim>\<open>genVal\<close> always succeeds.
\<close>

lemma key_below_bound: "tree_max_val t = 32768 \<Longrightarrow> unat (k :: key) < 2 * tree_max_val t"
  using unsigned_less [of k, where ?'a = nat] by simp

lemma ray_decode_no_fail:
  "tree_max_val t = 32768 \<Longrightarrow> ray_decode t idx j val \<noteq> None"
proof (induction t idx j val rule: ray_decode.induct)
  case (1 t idx j val)
  show ?case
  proof (cases "j < 3")
    case True
    have g: "genVal t (idx ! j) (val ! j)
               = (True, (real (unat (idx ! j)) - real (tree_max_val t) + 1 / 2) * resolution t)"
      using key_below_bound [OF "1.prems"] by (rule genVal_center)
    show ?thesis
      using True "1.IH" [OF True g [symmetric]] "1.prems"
      by (subst ray_decode.simps) (simp add: g)
  next
    case False
    then show ?thesis by (subst ray_decode.simps) simp
  qed
qed

lemma ray_iteration_no_fail:
  assumes "tree_max_val t = 32768"
  shows "ray_iteration t origin maxLength v ray \<noteq> Return False r"
proof -
  have chk: "uint w < 2 * int (tree_max_val t)" for w :: key
    using uint_lt2p [of w] assms by simp
  show ?thesis
    by (simp add: ray_iteration_def Let_def chk ray_decode_no_fail [OF assms]
          split: option.split)
qed

lemma ray_loop_no_fail:
  assumes "tree_max_val t = 32768" and "ray_loop t origin maxLength v ray = Some (b, r)"
  shows "b"
proof -
  have "tree_max_val t = 32768 \<longrightarrow> fst (b, r)"
  proof (rule ray_loop.raw_induct
      [where P = "\<lambda>t origin maxLength v ray y. tree_max_val t = 32768 \<longrightarrow> fst y",
        OF _ assms(2)])
    fix f :: "'a OcTree \<Rightarrow> point3d \<Rightarrow> real \<Rightarrow> ray_locals \<Rightarrow> point3d list
                \<Rightarrow> (bool \<times> point3d list) option"
    fix t origin maxLength v ray y
    assume IH: "\<And>t origin maxLength v ray y.
                  f t origin maxLength v ray = Some y \<Longrightarrow> tree_max_val t = 32768 \<longrightarrow> fst y"
      and eq: "(case ray_iteration t origin maxLength v ray of
                  Return b r \<Rightarrow> Some (b, r)
                | Continue v' r \<Rightarrow> f t origin maxLength v' r) = Some y"
    show "tree_max_val t = 32768 \<longrightarrow> fst y"
    proof
      assume m: "tree_max_val t = 32768"
      show "fst y"
      proof (cases "ray_iteration t origin maxLength v ray")
        case (Return b' r')
        with ray_iteration_no_fail [OF m, of origin maxLength v ray r'] have "b'"
          by (cases b') auto
        with Return eq show ?thesis by auto
      next
        case (Continue v' r')
        with eq have "f t origin maxLength v' r' = Some y" by simp
        from IH [OF this] m show ?thesis by simp
      qed
    qed
  qed
  with assms(1) show ?thesis by simp
qed


subsection \<open>What an iteration does to the sequence\<close>

lemma ray_iteration_Return:
  assumes "ray_iteration t origin L v ray = Return b r"
  shows "r = ray"
  using assms by (auto simp add: ray_iteration_def Let_def split: if_splits option.splits)

lemma ray_iteration_Continue:
  assumes "ray_iteration t origin L v ray = Continue v' r"
  shows "\<exists>q. r = ray @ [q] \<and> norm2 (sub3 q origin) \<le> L"
  using assms by (auto simp add: ray_iteration_def Let_def split: if_splits option.splits)


lemma ray_loop_within:
  assumes "ray_loop t origin L v ray = Some (b, r)"
    and "\<forall>p \<in> set ray. norm2 (sub3 p origin) \<le> L"
  shows "\<forall>p \<in> set r. norm2 (sub3 p origin) \<le> L"
proof -
  let ?P = "\<lambda>(t :: 'a OcTree) origin L (v :: ray_locals) ray (y :: bool \<times> point3d list).
      (\<forall>p \<in> set ray. norm2 (sub3 p origin) \<le> L)
        \<longrightarrow> (\<forall>p \<in> set (snd y). norm2 (sub3 p origin) \<le> L)"
  have "?P t origin L v ray (b, r)"
  proof (rule ray_loop.raw_induct [where P = ?P, OF _ assms(1)])
    fix f :: "'a OcTree \<Rightarrow> point3d \<Rightarrow> real \<Rightarrow> ray_locals \<Rightarrow> point3d list
                \<Rightarrow> (bool \<times> point3d list) option"
    fix t origin L v ray y
    assume IH: "\<And>t origin L v ray y. f t origin L v ray = Some y \<Longrightarrow> ?P t origin L v ray y"
      and eq: "(case ray_iteration t origin L v ray of
                  Return b r \<Rightarrow> Some (b, r)
                | Continue v' r \<Rightarrow> f t origin L v' r) = Some y"
    show "?P t origin L v ray y"
    proof (cases "ray_iteration t origin L v ray")
      case (Return b' r')
      with eq ray_iteration_Return [OF Return] show ?thesis by auto
    next
      case (Continue v' r')
      with eq have "f t origin L v' r' = Some y" by simp
      from IH [OF this] have "?P t origin L v' r' y" .
      moreover from ray_iteration_Continue [OF Continue]
      obtain q where "r' = ray @ [q]" "norm2 (sub3 q origin) \<le> L" by blast
      ultimately show ?thesis by auto
    qed
  qed
  with assms(2) show ?thesis by simp
qed

subsection \<open>Evaluation on the concrete rays\<close>

lemma unit_tree_fields:
  "resolution unit_tree = 1" "resolution_factor unit_tree = 1"
  "tree_max_val unit_tree = 32768"
  by (simp_all add: unit_tree_def OcTreeBase_fields)

lemma sqrt_25_64: "sqrt (25 / 64) = 5 / 8"
  by (rule real_sqrt_unique) (simp_all add: power2_eq_square)

lemma sqrt_25_16: "sqrt (25 / 16) = 5 / 4"
  by (rule real_sqrt_unique) (simp_all add: power2_eq_square)

lemma wrap_direction: "unit (sub3 wrap_end wrap_origin) = Point3d (3 / 5) (4 / 5) 0"
  by (simp add: sqrt_25_64 wrap_end_def wrap_origin_def)

lemma wrap_init:
  "ray_init unit_tree wrap_origin wrap_end (Point3d (3 / 5) (4 / 5) 0) 0 ray_locals0
     = Some wrap_locals0"
  by (simp add: ray_init_unrolled ray_init_axis_def genKey_def unit_tree_fields
        ray_locals0_def wrap_locals0_def wrap_origin_def wrap_end_def)

lemma wrap_iteration0:
  "ray_iteration unit_tree wrap_origin (norm2 (sub3 wrap_end wrap_origin)) wrap_locals0 []
     = Continue wrap_locals1 [wrap_point]"
  by (simp add: ray_iteration_def min_tMax_def unit_tree_fields genVal_def ray_decode.simps
        wrap_locals0_def wrap_locals1_def wrap_origin_def wrap_end_def wrap_point_def)

lemma wrap_iteration1:
  "ray_iteration unit_tree wrap_origin (norm2 (sub3 wrap_end wrap_origin)) wrap_locals1
       [wrap_point]
     = Return True [wrap_point]"
  by (simp add: ray_iteration_def min_tMax_def unit_tree_fields genVal_def ray_decode.simps
        wrap_locals1_def wrap_origin_def wrap_end_def wrap_point_def)

lemma wrap_cells_differ:
  "\<not> (voxelIdx wrap_locals0 ! 0 = endIdx wrap_locals0 ! 0
      \<and> voxelIdx wrap_locals0 ! 1 = endIdx wrap_locals0 ! 1
      \<and> voxelIdx wrap_locals0 ! 2 = endIdx wrap_locals0 ! 2)"
  by (simp add: wrap_locals0_def)

lemma sqrt_9_4: "sqrt (9 / 4) = 3 / 2"
  by (rule real_sqrt_unique) (simp_all add: power2_eq_square)

lemma tie_direction: "unit (sub3 tie_end tie_origin) = Point3d (2 / 3) (2 / 3) (1 / 3)"
  by (simp add: sqrt_9_4 tie_end_def tie_origin_def)

lemma tie_init:
  "ray_init unit_tree tie_origin tie_end (Point3d (2 / 3) (2 / 3) (1 / 3)) 0 ray_locals0
     = Some tie_locals0"
  by (simp add: ray_init_unrolled ray_init_axis_def genKey_def unit_tree_fields Let_def
        ray_locals0_def tie_locals0_def tie_origin_def tie_end_def)

lemma tie_iteration0:
  "ray_iteration unit_tree tie_origin (norm2 (sub3 tie_end tie_origin)) tie_locals0 []
     = Continue tie_locals1 [tie_point1]"
  by (simp add: ray_iteration_def min_tMax_def unit_tree_fields genVal_def ray_decode.simps
        tie_locals0_def tie_locals1_def tie_origin_def tie_end_def tie_point1_def)

lemma tie_iteration1:
  "ray_iteration unit_tree tie_origin (norm2 (sub3 tie_end tie_origin)) tie_locals1 [tie_point1]
     = Continue tie_locals2 [tie_point1, tie_point2]"
  by (simp add: ray_iteration_def min_tMax_def unit_tree_fields genVal_def ray_decode.simps
        tie_locals1_def tie_locals2_def tie_origin_def tie_end_def tie_point1_def
        tie_point2_def)

lemma tie_iteration2:
  "ray_iteration unit_tree tie_origin (norm2 (sub3 tie_end tie_origin)) tie_locals2
       [tie_point1, tie_point2]
     = Return True [tie_point1, tie_point2]"
  by (simp add: ray_iteration_def min_tMax_def unit_tree_fields genVal_def ray_decode.simps
        tie_locals2_def tie_origin_def tie_end_def tie_point1_def tie_point2_def)

lemma tie_cells_differ:
  "\<not> (voxelIdx tie_locals0 ! 0 = endIdx tie_locals0 ! 0
      \<and> voxelIdx tie_locals0 ! 1 = endIdx tie_locals0 ! 1
      \<and> voxelIdx tie_locals0 ! 2 = endIdx tie_locals0 ! 2)"
  by (simp add: tie_locals0_def)

lemma tie_computeRay:
  "computeRay unit_tree tie_origin tie_end ray0 = Some (True, [tie_point1, tie_point2])"
  by (simp only: computeRay_def Let_def tie_direction tie_init option.case tie_cells_differ
        if_False ray_outcome.case
        ray_loop.simps [of unit_tree tie_origin _ tie_locals0] tie_iteration0
        ray_loop.simps [of unit_tree tie_origin _ tie_locals1] tie_iteration1
        ray_loop.simps [of unit_tree tie_origin _ tie_locals2] tie_iteration2)

lemma eq_direction: "unit (sub3 eq_end eq_origin) = Point3d (- (3 / 5)) (- (4 / 5)) 0"
  by (simp add: sqrt_25_16 eq_end_def eq_origin_def)

lemma eq_init:
  "ray_init unit_tree eq_origin eq_end (Point3d (- (3 / 5)) (- (4 / 5)) 0) 0 ray_locals0
     = Some eq_locals0"
  by (simp add: ray_init_unrolled ray_init_axis_def genKey_def unit_tree_fields Let_def
        ray_locals0_def eq_locals0_def eq_origin_def eq_end_def)

lemma eq_iteration0:
  "ray_iteration unit_tree eq_origin (norm2 (sub3 eq_end eq_origin)) eq_locals0 []
     = Continue eq_locals1 [eq_point1]"
  by (simp add: ray_iteration_def min_tMax_def unit_tree_fields genVal_def ray_decode.simps
        eq_locals0_def eq_locals1_def eq_origin_def eq_end_def eq_point1_def)

lemma eq_iteration1:
  "ray_iteration unit_tree eq_origin (norm2 (sub3 eq_end eq_origin)) eq_locals1 [eq_point1]
     = Continue eq_locals2 [eq_point1, eq_point2]"
  by (simp add: ray_iteration_def min_tMax_def unit_tree_fields genVal_def ray_decode.simps
        eq_locals1_def eq_locals2_def eq_origin_def eq_end_def eq_point1_def eq_point2_def)

lemma eq_iteration2:
  "ray_iteration unit_tree eq_origin (norm2 (sub3 eq_end eq_origin)) eq_locals2
       [eq_point1, eq_point2]
     = Return True [eq_point1, eq_point2]"
  by (simp add: ray_iteration_def min_tMax_def unit_tree_fields genVal_def ray_decode.simps
        eq_locals2_def eq_origin_def eq_end_def eq_point1_def eq_point2_def)

lemma eq_cells_differ:
  "\<not> (voxelIdx eq_locals0 ! 0 = endIdx eq_locals0 ! 0
      \<and> voxelIdx eq_locals0 ! 1 = endIdx eq_locals0 ! 1
      \<and> voxelIdx eq_locals0 ! 2 = endIdx eq_locals0 ! 2)"
  by (simp add: eq_locals0_def)

lemma eq_computeRay:
  "computeRay unit_tree eq_origin eq_end ray0 = Some (True, [eq_point1, eq_point2])"
  by (simp only: computeRay_def Let_def eq_direction eq_init option.case eq_cells_differ
        if_False ray_outcome.case
        ray_loop.simps [of unit_tree eq_origin _ eq_locals0] eq_iteration0
        ray_loop.simps [of unit_tree eq_origin _ eq_locals1] eq_iteration1
        ray_loop.simps [of unit_tree eq_origin _ eq_locals2] eq_iteration2)









text \<open>The ray along axis 0 of the tree of the constructor.\<close>

lemma loop_length: "norm2 (sub3 loop_end loop_origin) = 65534.9"
  unfolding loop_end_def loop_origin_def sub3.simps norm2.simps
  by (rule real_sqrt_unique) (simp_all add: power2_eq_square)

lemma loop_direction: "unit (sub3 loop_end loop_origin) = Point3d 1 0 0"
  using loop_length by (simp add: loop_end_def loop_origin_def)

lemma loop_init:
  "ray_init unit_tree loop_origin loop_end (Point3d 1 0 0) 0 ray_locals0 = Some loop_locals0"
  by (simp add: ray_init_unrolled ray_init_axis_def genKey_def unit_tree_fields Let_def
        ray_locals0_def loop_locals0_def loop_origin_def loop_end_def)

lemma ray_decode_centers:
  assumes "tree_max_val t = 32768"
  shows "ray_decode t idx 0 [0, 0, 0]
           = Some [center t (idx ! 0), center t (idx ! 1), center t (idx ! 2)]"
proof -
  have g: "genVal t k v0 = (True, center t k)" for k v0
    using key_below_bound [OF assms] by (simp add: genVal_center center_def)
  show ?thesis
    by (simp add: ray_decode.simps g numeral_2_eq_2)
qed

lemma loop_distance:
  "norm2 (sub3 (Point3d (center unit_tree k) (center unit_tree 32768) (center unit_tree 32768))
       loop_origin) \<le> 65534.9"
proof -
  have "unat k < 65536"
    using unsigned_less [of k, where ?'a = nat] by simp
  then have "unat k \<le> 65535" by simp
  from of_nat_mono [OF this, where ?'a = real] have u: "real (unat k) \<le> 65535" by simp
  have "norm2 (sub3 (Point3d (center unit_tree k) (center unit_tree 32768)
          (center unit_tree 32768)) loop_origin) = \<bar>real (unat k) - 1 / 2\<bar>"
    by (simp add: loop_origin_def center_def unit_tree_fields)
  also have "\<dots> \<le> 65534.9"
  proof -
    have "0 \<le> real (unat k)" by (rule of_nat_0_le_iff)
    with u show ?thesis by linarith
  qed
  finally show ?thesis .
qed

lemma loop_iteration:
  assumes "loop_inv v"
  shows "\<exists>v' r'. ray_iteration unit_tree loop_origin 65534.9 v ray = Continue v' r'
           \<and> loop_inv v'"
proof -
  from assms obtain k where s: "step v = [1, 0, 0]" and x: "voxelIdx v = [k, 32768, 32768]"
    by (auto simp add: loop_inv_def)
  have chk: "uint w < 65536" for w :: key
    using uint_lt2p [of w] by simp
  have i: "min_tMax (tMax v) = 0 \<or> min_tMax (tMax v) = 1 \<or> min_tMax (tMax v) = 2"
    by (simp add: min_tMax_def)
  have d: "\<not> norm2 (sub3 (Point3d (center unit_tree k') (center unit_tree 32768)
              (center unit_tree 32768)) loop_origin) > 65534.9" for k'
    using loop_distance [of k'] by linarith
  from i show ?thesis
  proof (elim disjE)
    assume "min_tMax (tMax v) = 0"
    then show ?thesis
      using d [of "k + 1"]
      by (simp add: ray_iteration_def Let_def s x chk unit_tree_fields ray_decode_centers
            loop_inv_def del: norm2.simps sub3.simps)
  next
    assume "min_tMax (tMax v) = 1"
    then show ?thesis
      using d [of "k"]
      by (simp add: ray_iteration_def Let_def s x chk unit_tree_fields ray_decode_centers
            loop_inv_def del: norm2.simps sub3.simps)
  next
    assume "min_tMax (tMax v) = 2"
    then show ?thesis
      using d [of "k"]
      by (simp add: ray_iteration_def Let_def s x chk unit_tree_fields ray_decode_centers
            loop_inv_def del: norm2.simps sub3.simps)
  qed
qed

lemma loop_never_returns:
  assumes "loop_inv v"
  shows "ray_loop unit_tree loop_origin 65534.9 v ray = None"
proof (cases "ray_loop unit_tree loop_origin 65534.9 v ray")
  case None
  then show ?thesis .
next
  case (Some y)
  let ?P = "\<lambda>(t :: unit OcTree) origin (L :: real) v (ray :: point3d list)
               (y :: bool \<times> point3d list).
               t = unit_tree \<and> origin = loop_origin \<and> L = 65534.9 \<longrightarrow> \<not> loop_inv v"
  have "?P unit_tree loop_origin 65534.9 v ray y"
  proof (rule ray_loop.raw_induct [where P = ?P, OF _ Some])
    fix f :: "unit OcTree \<Rightarrow> point3d \<Rightarrow> real \<Rightarrow> ray_locals \<Rightarrow> point3d list
                \<Rightarrow> (bool \<times> point3d list) option"
    fix t origin L v ray y
    assume IH: "\<And>t origin L v ray y. f t origin L v ray = Some y \<Longrightarrow> ?P t origin L v ray y"
      and eq: "(case ray_iteration t origin L v ray of
                  Return b r \<Rightarrow> Some (b, r)
                | Continue v' r \<Rightarrow> f t origin L v' r) = Some y"
    show "?P t origin L v ray y"
    proof (intro impI notI)
      assume c: "t = unit_tree \<and> origin = loop_origin \<and> L = 65534.9" and inv: "loop_inv v"
      from loop_iteration [OF inv, of ray] obtain v' r'
        where it: "ray_iteration unit_tree loop_origin 65534.9 v ray = Continue v' r'"
          and inv': "loop_inv v'"
        by blast
      from eq c it have "f unit_tree loop_origin 65534.9 v' r' = Some y" by simp
      from IH [OF this] inv' show False by simp
    qed
  qed
  with assms show ?thesis by simp
qed

text \<open>
  The traversal of this ray does not return: after the last voxel of axis 0 the index
  wraps around to 0, every center of the row is within \<open>maxLength\<close> of the origin, and no
  test of the loop ends it.
\<close>

lemma wrapping_ray_never_returns: "computeRay unit_tree loop_origin loop_end ray0 = None"
proof -
  have inv: "loop_inv loop_locals0"
    by (simp add: loop_inv_def loop_locals0_def)
  have ne: "\<not> (voxelIdx loop_locals0 ! 0 = endIdx loop_locals0 ! 0
      \<and> voxelIdx loop_locals0 ! 1 = endIdx loop_locals0 ! 1
      \<and> voxelIdx loop_locals0 ! 2 = endIdx loop_locals0 ! 2)"
    by (simp add: loop_locals0_def)
  show ?thesis
    by (simp only: computeRay_def Let_def loop_direction loop_init option.case ne if_False
          loop_length loop_never_returns [OF inv])
qed

subsection \<open>The claims on the ray traversal\<close>

text \<open>
  C2 (ray tie-break), as the claim states it, fails: on the ray from \<open>tie_origin\<close> to
  \<open>tie_end\<close> the axes 0 and 1 have the same smallest \<open>tMax\<close> in the first iteration, and
  the loop advances axis 1, not axis 0, so the first point of the ray is the center of the
  neighbour voxel on axis 1. In the third iteration all three axes have the same \<open>tMax\<close>,
  and the loop advances axis 2.
\<close>

theorem tie_break_counterexample:
  "tMax tie_locals0 ! 0 = tMax tie_locals0 ! 1
     \<and> tMax tie_locals0 ! 0 < tMax tie_locals0 ! 2
     \<and> min_tMax (tMax tie_locals0) = 1
     \<and> tMax tie_locals2 ! 0 = tMax tie_locals2 ! 1
     \<and> tMax tie_locals2 ! 1 = tMax tie_locals2 ! 2
     \<and> min_tMax (tMax tie_locals2) = 2
     \<and> ray_init unit_tree tie_origin tie_end (unit (sub3 tie_end tie_origin)) 0 ray_locals0
          = Some tie_locals0
     \<and> ray_iteration unit_tree tie_origin (norm2 (sub3 tie_end tie_origin)) tie_locals0 []
          = Continue tie_locals1 [Point3d 0.5 1.5 0.5]
     \<and> voxelIdx tie_locals1 = [32768, 32769, 32768]
     \<and> computeRay unit_tree tie_origin tie_end []
          = Some (True, [Point3d 0.5 1.5 0.5, Point3d 1.5 1.5 0.5])"
proof -
  have "tMax tie_locals0 ! 0 = tMax tie_locals0 ! 1" "tMax tie_locals0 ! 0 < tMax tie_locals0 ! 2"
    "min_tMax (tMax tie_locals0) = 1" "voxelIdx tie_locals1 = [32768, 32769, 32768]"
    "tMax tie_locals2 ! 0 = tMax tie_locals2 ! 1" "tMax tie_locals2 ! 1 = tMax tie_locals2 ! 2"
    "min_tMax (tMax tie_locals2) = 2"
    by (simp_all add: tie_locals0_def tie_locals1_def tie_locals2_def min_tMax_def)
  then show ?thesis
    using tie_init tie_iteration0 tie_computeRay [of "[]"]
    by (simp only: tie_direction tie_point1_def tie_point2_def)
qed

text \<open>
  C2, amended. The axis advanced by an iteration is \<open>min_tMax\<close> of the current \<open>tMax\<close>: its
  \<open>tMax\<close> is the smallest of the three, and among the axes that share the smallest \<open>tMax\<close>
  it is the highest-numbered one (priority order 2, 1, 0). An iteration that goes round
  again has changed the voxel index of this axis only, by its step.
\<close>

theorem tie_break_highest_axis:
  "min_tMax tm < 3
     \<and> (\<forall>j<3. tm ! min_tMax tm \<le> tm ! j)
     \<and> (\<forall>j<3. tm ! j = tm ! min_tMax tm \<longrightarrow> j \<le> min_tMax tm)
     \<and> (ray_iteration t origin maxLength v ray = Continue v' ray' \<longrightarrow>
          voxelIdx v' = (voxelIdx v)[min_tMax (tMax v) :=
             voxelIdx v ! min_tMax (tMax v) + word_of_int (step v ! min_tMax (tMax v))])"
proof -
  have a: "min_tMax tm < 3" by (simp add: min_tMax_def)
  have b: "\<forall>j<3. tm ! min_tMax tm \<le> tm ! j"
    by (auto simp add: min_tMax_def less_Suc_eq numeral_3_eq_3 numeral_2_eq_2)
  have c: "\<forall>j<3. tm ! j = tm ! min_tMax tm \<longrightarrow> j \<le> min_tMax tm"
    by (auto simp add: min_tMax_def less_Suc_eq numeral_3_eq_3 numeral_2_eq_2)
  have d: "ray_iteration t origin maxLength v ray = Continue v' ray' \<longrightarrow>
          voxelIdx v' = (voxelIdx v)[min_tMax (tMax v) :=
             voxelIdx v ! min_tMax (tMax v) + word_of_int (step v ! min_tMax (tMax v))]"
    by (auto simp add: ray_iteration_def Let_def split: if_splits option.splits)
  from a b c d show ?thesis by blast
qed

theorem tie_break_highest_axis_witness:
  "min_tMax (tMax tie_locals0) < 3
     \<and> tMax tie_locals0 ! min_tMax (tMax tie_locals0) \<le> tMax tie_locals0 ! 0
     \<and> tMax tie_locals0 ! 0 = tMax tie_locals0 ! min_tMax (tMax tie_locals0)
     \<and> 0 \<le> min_tMax (tMax tie_locals0)
     \<and> ray_iteration unit_tree tie_origin (norm2 (sub3 tie_end tie_origin)) tie_locals0 []
          = Continue tie_locals1 [tie_point1]
     \<and> voxelIdx tie_locals1 = (voxelIdx tie_locals0)[min_tMax (tMax tie_locals0) :=
          voxelIdx tie_locals0 ! min_tMax (tMax tie_locals0)
            + word_of_int (step tie_locals0 ! min_tMax (tMax tie_locals0))]"
proof -
  have e: "tMax tie_locals0 ! 0 = tMax tie_locals0 ! min_tMax (tMax tie_locals0)"
    by (simp add: tie_locals0_def min_tMax_def)
  show ?thesis
    using tie_break_highest_axis [of "tMax tie_locals0" unit_tree tie_origin
        "norm2 (sub3 tie_end tie_origin)" tie_locals0 "[]" tie_locals1 "[tie_point1]"]
      tie_iteration0 e
    by simp
qed

text \<open>
  C3 (ray boundary failure), evaluated where it fails. On the ray from \<open>wrap_origin\<close> to
  \<open>wrap_end\<close> the second iteration advances axis 0 from the index 65535 by the step 1. The
  index leaves the range and the claim asks for failure; the 16-bit index wraps around to
  0 instead, the boundary test passes, and the call returns success with one point.
\<close>

theorem boundary_wrap_succeeds:
  "ray_init unit_tree wrap_origin wrap_end (unit (sub3 wrap_end wrap_origin)) 0 ray_locals0
       = Some wrap_locals0
     \<and> ray_iteration unit_tree wrap_origin (norm2 (sub3 wrap_end wrap_origin)) wrap_locals0 []
          = Continue wrap_locals1 [wrap_point]
     \<and> min_tMax (tMax wrap_locals1) = 0
     \<and> voxelIdx wrap_locals1 ! 0 = 65535
     \<and> step wrap_locals1 ! 0 = 1
     \<and> voxelIdx wrap_locals1 ! 0 + word_of_int (step wrap_locals1 ! 0) = 0
     \<and> ray_iteration unit_tree wrap_origin (norm2 (sub3 wrap_end wrap_origin)) wrap_locals1
          [wrap_point] = Return True [wrap_point]
     \<and> computeRay unit_tree wrap_origin wrap_end [] = Some (True, [Point3d 32767.5 1.5 0.5])"
proof -
  have a: "min_tMax (tMax wrap_locals1) = 0" "voxelIdx wrap_locals1 ! 0 = 65535"
    "step wrap_locals1 ! 0 = 1"
    "voxelIdx wrap_locals1 ! 0 + word_of_int (step wrap_locals1 ! 0) = 0"
    by (simp_all add: wrap_locals1_def min_tMax_def)
  have b: "computeRay unit_tree wrap_origin wrap_end [] = Some (True, [wrap_point])"
    by (simp only: computeRay_def Let_def wrap_direction wrap_init option.case
          wrap_cells_differ if_False
          ray_loop.simps [of unit_tree wrap_origin _ wrap_locals0] wrap_iteration0
          ray_outcome.case
          ray_loop.simps [of unit_tree wrap_origin _ wrap_locals1] wrap_iteration1)
  show ?thesis
    using a b wrap_init wrap_iteration0 wrap_iteration1
    by (simp only: wrap_direction wrap_point_def)
qed




text \<open>
  C9 (degenerate ray). When the origin and the end point encode, on all three axes, to the
  same keys, \<^verbatim>\<open>computeRay\<close> returns success with an empty \<^verbatim>\<open>_ray\<close>, whatever \<^verbatim>\<open>_ray\<close> held
  before; in particular \<^verbatim>\<open>computeRay(p, p)\<close> does for every point \<open>p\<close> that encodes.
\<close>

theorem degenerate_ray:
  assumes "genKeys t origin = Some k" and "genKeys t endpoint = Some k"
  shows "computeRay t origin endpoint ray0 = Some (True, [])
       \<and> computeRay t origin origin ray0 = Some (True, [])"
proof -
  have deg: "computeRay t a b ray0 = Some (True, [])"
    if "genKeys t a = Some k" and "genKeys t b = Some k" for a b
  proof -
    let ?d = "unit (sub3 b a)"
    from that have "ray_init t a b ?d 0 ray_locals0 \<noteq> None"
      by (simp add: ray_init_None)
    then obtain v where v: "ray_init t a b ?d 0 ray_locals0 = Some v" by auto
    from ray_init_Some [OF v] that have "voxelIdx v = k" "endIdx v = k" by auto
    with v show ?thesis by (simp add: computeRay_def Let_def)
  qed
  from deg [OF assms] deg [OF assms(1) assms(1)] show ?thesis by simp
qed

theorem degenerate_ray_witness:
  "genKeys unit_tree (Point3d 0.5 0.5 0.5) = Some [32768, 32768, 32768]
     \<and> genKeys unit_tree (Point3d 0.75 0.25 0.5) = Some [32768, 32768, 32768]
     \<and> computeRay unit_tree (Point3d 0.5 0.5 0.5) (Point3d 0.75 0.25 0.5) [Point3d 1 2 3]
          = Some (True, [])
     \<and> computeRay unit_tree (Point3d 0.5 0.5 0.5) (Point3d 0.5 0.5 0.5) [Point3d 1 2 3]
          = Some (True, [])"
proof -
  have h1: "genKeys unit_tree (Point3d 0.5 0.5 0.5) = Some [32768, 32768, 32768]"
    by (simp add: genKeys_unrolled genKey_def unit_tree_fields)
  have h2: "genKeys unit_tree (Point3d 0.75 0.25 0.5) = Some [32768, 32768, 32768]"
    by (simp add: genKeys_unrolled genKey_def unit_tree_fields)
  show ?thesis using h1 h2 degenerate_ray [OF h1 h2, of "[Point3d 1 2 3]"] by simp
qed


section \<open>Order of the points of a ray\<close>

text \<open>
  C7 (ray monotonicity), as the claim states it, fails: the ray from \<open>eq_origin\<close> to
  \<open>eq_end\<close>, two different points that both encode, returns with success two points at
  the same distance from the origin, so the distances are not strictly increasing.
\<close>

theorem ray_monotonicity_counterexample:
  "genKeys unit_tree eq_origin = Some [32769, 32769, 32768]
     \<and> genKeys unit_tree eq_end = Some [32768, 32768, 32768]
     \<and> computeRay unit_tree eq_origin eq_end []
          = Some (True, [Point3d 1.5 0.5 0.5, Point3d 0.5 0.5 0.5])
     \<and> norm2 (sub3 (Point3d 1.5 0.5 0.5) eq_origin) = norm2 (sub3 (Point3d 0.5 0.5 0.5) eq_origin)
     \<and> \<not> norm2 (sub3 (Point3d 1.5 0.5 0.5) eq_origin)
           < norm2 (sub3 (Point3d 0.5 0.5 0.5) eq_origin)"
proof -
  have "genKeys unit_tree eq_origin = Some [32769, 32769, 32768]"
    "genKeys unit_tree eq_end = Some [32768, 32768, 32768]"
    by (simp_all add: genKeys_unrolled genKey_def unit_tree_fields eq_origin_def eq_end_def)
  moreover have "norm2 (sub3 (Point3d 1.5 0.5 0.5) eq_origin)
                   = norm2 (sub3 (Point3d 0.5 0.5 0.5) eq_origin)"
    by (simp add: eq_origin_def)
  moreover have "computeRay unit_tree eq_origin eq_end []
                   = Some (True, [Point3d 1.5 0.5 0.5, Point3d 0.5 0.5 0.5])"
    using eq_computeRay [of "[]"] by (simp only: eq_point1_def eq_point2_def)
  ultimately show ?thesis by simp
qed

text \<open>
  C7, amended. For every origin and end, when \<^verbatim>\<open>computeRay\<close> succeeds, every point of the
  returned sequence is at a distance from the origin of at most \<open>maxLength\<close>, the distance
  from the origin to the end. (The distances are not strictly increasing in sequence
  order: consecutive points can be at the same distance.)
\<close>

theorem ray_points_within_maxLength:
  assumes "computeRay t origin endpoint ray0 = Some (True, ray)"
  shows "\<forall>p \<in> set ray. norm2 (sub3 p origin) \<le> norm2 (sub3 endpoint origin)"
proof (cases "ray_init t origin endpoint (unit (sub3 endpoint origin)) 0 ray_locals0")
  case None
  with assms show ?thesis by (simp add: computeRay_def Let_def)
next
  case (Some v)
  show ?thesis
  proof (cases "voxelIdx v ! 0 = endIdx v ! 0 \<and> voxelIdx v ! 1 = endIdx v ! 1
                  \<and> voxelIdx v ! 2 = endIdx v ! 2")
    case True
    with Some assms have "ray = []" by (simp add: computeRay_def Let_def)
    then show ?thesis by simp
  next
    case False
    have "computeRay t origin endpoint ray0
            = ray_loop t origin (norm2 (sub3 endpoint origin)) v []"
      unfolding computeRay_def Let_def Some option.case by (simp only: False if_False)
    with assms have "ray_loop t origin (norm2 (sub3 endpoint origin)) v [] = Some (True, ray)"
      by simp
    from ray_loop_within [OF this] show ?thesis by simp
  qed
qed

theorem ray_points_within_maxLength_witness:
  "computeRay unit_tree eq_origin eq_end [] = Some (True, [eq_point1, eq_point2])
     \<and> norm2 (sub3 eq_point1 eq_origin) \<le> norm2 (sub3 eq_end eq_origin)
     \<and> norm2 (sub3 eq_point2 eq_origin) \<le> norm2 (sub3 eq_end eq_origin)"
proof -
  have h: "computeRay unit_tree eq_origin eq_end [] = Some (True, [eq_point1, eq_point2])"
    by (rule eq_computeRay)
  from ray_points_within_maxLength [OF h] h show ?thesis by simp
qed

section \<open>Properties of the tree enumeration\<close>













end
